theory Spec2Isabelle
  imports Complex_Main "HOL-Library.Log_Nat"
begin

section \<open>JavaScript numbers\<close>

text \<open>
  Every \<^verbatim>\<open>number\<close> of the component is an IEEE-754 binary64 value. A finite value is
  kept as a sign bit (\<open>True\<close> for negative, so that \<open>-0\<close> exists) and the exact rational
  magnitude; \<open>*\<close> and \<open>/\<close> compute the exact rational result and round it to the nearest
  representable value, ties to even, with gradual underflow and overflow to infinity.
\<close>

datatype number = NaN | Infinity bool | Finite bool rat

text \<open>The exponent \<open>e\<close> with \<open>2 ^ e \<le> q < 2 ^ (e + 1)\<close>, for \<open>q > 0\<close>.\<close>

definition floor_log2 :: "rat \<Rightarrow> int" where
  "floor_log2 q =
     (let (p, d) = quotient_of q; k = bitlen p - bitlen d
      in if power_int 2 k \<le> q then k else k - 1)"

definition round_half_even :: "rat \<Rightarrow> int" where
  "round_half_even x =
     (let f = \<lfloor>x\<rfloor>; d = x - of_int f
      in if d < 1 / 2 then f
         else if 1 / 2 < d then f + 1
         else if even f then f else f + 1)"

text \<open>
  Rounding of an exact magnitude \<open>q \<ge> 0\<close> with sign \<open>s\<close>: the significand has 53 bits,
  the least exponent is \<open>-1022\<close> (below it the spacing stays \<open>2 ^ -1074\<close>), and a result
  that would need an exponent above \<open>1023\<close> is an infinity.
\<close>

definition round_binary64 :: "bool \<Rightarrow> rat \<Rightarrow> number" where
  "round_binary64 s q =
     (if q = 0 then Finite s 0
      else
        let e = max (floor_log2 q) (- 1022);
            ulp = power_int 2 (e - 52);
            n = round_half_even (q / ulp)
        in if 1024 \<le> e \<or> (e = 1023 \<and> 2 ^ 53 \<le> n) then Infinity s
           else Finite s (of_int n * ulp))"

text \<open>The value of a decimal literal of the source text.\<close>

definition js_literal :: "rat \<Rightarrow> number" where
  "js_literal q = round_binary64 (q < 0) \<bar>q\<bar>"

text \<open>The operator \<^verbatim>\<open>*\<close>.\<close>

fun js_mul :: "number \<Rightarrow> number \<Rightarrow> number" where
  "js_mul NaN _ = NaN"
| "js_mul _ NaN = NaN"
| "js_mul (Infinity s) (Infinity t) = Infinity (s \<noteq> t)"
| "js_mul (Infinity s) (Finite t n) = (if n = 0 then NaN else Infinity (s \<noteq> t))"
| "js_mul (Finite s m) (Infinity t) = (if m = 0 then NaN else Infinity (s \<noteq> t))"
| "js_mul (Finite s m) (Finite t n) = round_binary64 (s \<noteq> t) (m * n)"

text \<open>The operator \<^verbatim>\<open>/\<close>.\<close>

fun js_div :: "number \<Rightarrow> number \<Rightarrow> number" where
  "js_div NaN _ = NaN"
| "js_div _ NaN = NaN"
| "js_div (Infinity s) (Infinity t) = NaN"
| "js_div (Infinity s) (Finite t n) = Infinity (s \<noteq> t)"
| "js_div (Finite s m) (Infinity t) = Finite (s \<noteq> t) 0"
| "js_div (Finite s m) (Finite t n) =
     (if n = 0 then (if m = 0 then NaN else Infinity (s \<noteq> t))
      else round_binary64 (s \<noteq> t) (m / n))"

text \<open>The operator \<^verbatim>\<open>??\<close>: the right operand replaces an absent left operand only.\<close>

definition nullish :: "'a option \<Rightarrow> 'a \<Rightarrow> 'a" where
  "nullish x d = (case x of None \<Rightarrow> d | Some v \<Rightarrow> v)"

section \<open>Data model\<close>

text \<open>
  Modelled from the spec: the type \<^verbatim>\<open>PricePoint\<close> of \<^verbatim>\<open>graphql/data/util\<close> is missing;
  the spec gives it as \<^verbatim>\<open>{ value: number, timestamp: number }\<close>.
\<close>

record PricePoint =
  timestamp :: number
  point_value :: number

text \<open>\<^verbatim>\<open>HistogramData<UTCTimestamp>\<close>, with the two fields the component writes and reads.\<close>

record HistogramData =
  bar_value :: number
  bar_time :: number

text \<open>The members of \<^verbatim>\<open>NumberType\<close> this file names.\<close>

datatype NumberType = FiatTokenChartStatsScale | FiatTokenStatChartHeader

text \<open>The argument object \<^verbatim>\<open>{ price, type }\<close> of \<^verbatim>\<open>formatFiatPrice\<close>.\<close>

record FiatPriceArgs =
  price :: "number option"
  number_type :: NumberType

text \<open>The object \<^verbatim>\<open>useFormatter()\<close> returns; its implementation is a collaborator.\<close>

record Formatter =
  formatFiatPrice :: "FiatPriceArgs \<Rightarrow> string"

text \<open>The colours of the theme the file reads.\<close>

record Theme =
  surface3 :: string
  accent1 :: string

text \<open>
  \<^verbatim>\<open>VolumeChartModelParams\<close>; its field \<^verbatim>\<open>locale\<close> is \<open>locale_code\<close> here. The field
  \<open>data\<close> has type \<open>'d\<close>: the component builds the bundle around the array it derived,
  and the chart model receives that array by reference. \<open>onCrosshairMove\<close> is a state
  setter: it maps the hovered datum (or its absence) and the old state to the new state.
\<close>

record 'd VolumeChartModelParams =
  data :: 'd
  locale_code :: string
  theme :: Theme
  color :: string
  format :: Formatter
  onCrosshairMove :: "HistogramData option \<Rightarrow> HistogramData option \<Rightarrow> HistogramData option"
  headerHeight :: number

text \<open>
  The collaborators the two components read from their surroundings: the values the hooks
  return, the \<^verbatim>\<open>t\<close> macro of the translation library (applied to the literal parts of
  the template and to the interpolated values), and \<^verbatim>\<open>toHistoryDuration\<close> and
  \<^verbatim>\<open>BIPS_BASE\<close>, whose modules are missing. \<open>'tp\<close> is the enumeration \<^verbatim>\<open>TimePeriod\<close>.
\<close>

record 'tp Env =
  useActiveLocale :: string
  useTheme :: Theme
  useFormatter :: Formatter
  useHeaderDateFormatter :: "number \<Rightarrow> string"
  t_macro :: "string list \<Rightarrow> string list \<Rightarrow> string"
  toHistoryDuration :: "'tp \<Rightarrow> string"
  BIPS_BASE :: number

section \<open>Strings\<close>

text \<open>
  \<^verbatim>\<open>String.prototype.toLowerCase\<close> on the letters A to Z; a \<open>string\<close> is a list of bytes,
  and the bytes outside that range are kept (exact for ASCII text).
\<close>

definition lower_char :: "char \<Rightarrow> char" where
  "lower_char c =
     (let n = (of_char c :: nat) in if 65 \<le> n \<and> n \<le> 90 then char_of (n + 32) else c)"

definition toLowerCase :: "string \<Rightarrow> string" where
  "toLowerCase s = map lower_char s"

section \<open>The chart model \<^verbatim>\<open>VolumeChartModel\<close>\<close>

text \<open>The literal \<^verbatim>\<open>volumeChartOptions\<close>, one record for each nested object.\<close>

record Localization =
  localization_locale :: string
  priceFormatter :: "number \<Rightarrow> string"

record PriceScaleOptions =
  borderVisible :: bool
  scaleMargins_top :: number
  scaleMargins_bottom :: number

record CrosshairLine =
  visible :: bool
  labelVisible :: bool

record ChartOptions =
  autoSize :: bool
  localization :: Localization
  rightPriceScale :: PriceScaleOptions
  handleScale_axisPressedMouseMove :: bool
  handleScroll_vertTouchDrag :: bool
  crosshair_horzLine :: CrosshairLine
  crosshair_vertLine :: CrosshairLine

text \<open>The options \<^verbatim>\<open>updateOptions\<close> applies to the histogram series.\<close>

record SeriesOptions =
  series_color :: string
  priceFormat_type :: string
  priceLineVisible :: bool
  lastValueVisible :: bool

text \<open>
  Modelled from the spec: \<^verbatim>\<open>CrosshairHighlightPrimitive\<close> is missing; the spec describes
  an overlay configured with a colour and a vertical position, both replaced by
  \<^verbatim>\<open>applyOptions\<close>.
\<close>

record HighlightOptions =
  highlight_color :: string
  crosshairYPosition :: number

text \<open>The calls the model makes on the charting engine, in the order it makes them.\<close>

datatype engine_call =
    Api_applyOptions ChartOptions
  | Series_setData "HistogramData list"
  | TimeScale_fitContent
  | Series_applyOptions SeriesOptions
  | Highlight_applyOptions HighlightOptions

fun is_setData :: "engine_call \<Rightarrow> bool" where
  "is_setData (Series_setData _) = True"
| "is_setData _ = False"

fun is_fitContent :: "engine_call \<Rightarrow> bool" where
  "is_fitContent TimeScale_fitContent = True"
| "is_fitContent _ = False"

text \<open>
  An array is passed by reference: \<open>ref\<close> is its identity, the store gives the elements
  of each array, and \<^verbatim>\<open>!==\<close> on two arrays compares the identities.
\<close>

type_synonym ref = nat

type_synonym store = "ref \<Rightarrow> HistogramData list"

text \<open>
  The state of a model: the inherited field \<^verbatim>\<open>this.data\<close>, the data set and the options
  the series holds, the options of \<^verbatim>\<open>highlightBarPrimitive\<close>, and the calls made so far.
\<close>

record VolumeChartModel =
  this_data :: ref
  series_data :: "HistogramData list"
  series_options :: SeriesOptions
  highlightBarPrimitive :: HighlightOptions
  engine_calls :: "engine_call list"

definition series_setData :: "HistogramData list \<Rightarrow> VolumeChartModel \<Rightarrow> VolumeChartModel" where
  "series_setData items m =
     m\<lparr>series_data := items, engine_calls := engine_calls m @ [Series_setData items]\<rparr>"

definition series_applyOptions :: "SeriesOptions \<Rightarrow> VolumeChartModel \<Rightarrow> VolumeChartModel" where
  "series_applyOptions opts m =
     m\<lparr>series_options := opts, engine_calls := engine_calls m @ [Series_applyOptions opts]\<rparr>"

definition highlight_applyOptions :: "HighlightOptions \<Rightarrow> VolumeChartModel \<Rightarrow> VolumeChartModel" where
  "highlight_applyOptions opts m =
     m\<lparr>highlightBarPrimitive := opts,
       engine_calls := engine_calls m @ [Highlight_applyOptions opts]\<rparr>"

text \<open>
  Modelled from the spec: the base class \<^verbatim>\<open>ChartModel\<close> is missing. Of its
  \<^verbatim>\<open>updateOptions\<close> the spec says that it reconfigures the localization and the fixed
  layout options on every update; of \<^verbatim>\<open>fitContent\<close>, that it fits the visible range to
  the data. Neither touches \<^verbatim>\<open>this.data\<close> or the series.
\<close>

definition ChartModel_updateOptions ::
  "ref VolumeChartModelParams \<Rightarrow> ChartOptions \<Rightarrow> VolumeChartModel \<Rightarrow> VolumeChartModel" where
  "ChartModel_updateOptions params nonDefaultChartOptions m =
     m\<lparr>engine_calls := engine_calls m @ [Api_applyOptions nonDefaultChartOptions]\<rparr>"

definition fitContent :: "VolumeChartModel \<Rightarrow> VolumeChartModel" where
  "fitContent m = m\<lparr>engine_calls := engine_calls m @ [TimeScale_fitContent]\<rparr>"

definition volumeChartOptions :: "ref VolumeChartModelParams \<Rightarrow> ChartOptions" where
  "volumeChartOptions params =
     \<lparr>autoSize = True,
      localization =
        \<lparr>localization_locale = locale_code params,
         priceFormatter = (\<lambda>p. formatFiatPrice (format params)
            \<lparr>price = Some p, number_type = FiatTokenChartStatsScale\<rparr>)\<rparr>,
      rightPriceScale =
        \<lparr>borderVisible = False,
         scaleMargins_top = js_literal (3 / 10),
         scaleMargins_bottom = js_literal 0\<rparr>,
      handleScale_axisPressedMouseMove = False,
      handleScroll_vertTouchDrag = False,
      crosshair_horzLine = \<lparr>visible = False, labelVisible = False\<rparr>,
      crosshair_vertLine = \<lparr>visible = False, labelVisible = False\<rparr>\<rparr>"

text \<open>\<^verbatim>\<open>VolumeChartModel.updateOptions\<close>; the store is read where \<^verbatim>\<open>setData\<close> reads the array.\<close>

definition updateOptions ::
  "store \<Rightarrow> ref VolumeChartModelParams \<Rightarrow> VolumeChartModel \<Rightarrow> VolumeChartModel" where
  "updateOptions h params m =
     (let m1 = ChartModel_updateOptions params (volumeChartOptions params) m;
          m2 = (if this_data m1 \<noteq> data params
                then fitContent
                       (series_setData (h (data params)) (m1\<lparr>this_data := data params\<rparr>))
                else m1);
          m3 = series_applyOptions
                 \<lparr>series_color = color params,
                  priceFormat_type = ''volume'',
                  priceLineVisible = False,
                  lastValueVisible = False\<rparr> m2
      in highlight_applyOptions
           \<lparr>highlight_color = surface3 (theme params),
            crosshairYPosition = headerHeight params\<rparr> m3)"

text \<open>The calls made between two states of a model.\<close>

definition calls_between :: "VolumeChartModel \<Rightarrow> VolumeChartModel \<Rightarrow> engine_call list" where
  "calls_between before after = drop (length (engine_calls before)) (engine_calls after)"

section \<open>The header \<^verbatim>\<open>VolumeChartHeader\<close>\<close>

record DisplayStrings =
  volume :: string
  fees :: string
  time :: string

text \<open>The local function \<^verbatim>\<open>priceFormatter\<close> of the \<open>display\<close> memo.\<close>

definition header_priceFormatter :: "'tp Env \<Rightarrow> number option \<Rightarrow> string" where
  "header_priceFormatter env p =
     formatFiatPrice (useFormatter env) \<lparr>price = p, number_type = FiatTokenStatChartHeader\<rparr>"

text \<open>
  The local constant \<^verbatim>\<open>mockCumulativeVolume\<close>; \<open>random\<close> is the value \<^verbatim>\<open>Math.random()\<close>
  returns in this computation.
\<close>

definition mockCumulativeVolume :: "number \<Rightarrow> number" where
  "mockCumulativeVolume random = js_mul random (js_literal 10000000000)"

text \<open>The local constant \<^verbatim>\<open>fees\<close> of the branch with a crosshair datum.\<close>

definition crosshair_fees :: "'tp Env \<Rightarrow> HistogramData \<Rightarrow> number option \<Rightarrow> number" where
  "crosshair_fees env crosshairData feeTier =
     js_mul (bar_value crosshairData)
       (js_div (js_div (nullish feeTier (js_literal 0)) (BIPS_BASE env)) (js_literal 100))"

text \<open>The callback of the \<open>display\<close> memo.\<close>

definition display ::
  "'tp Env \<Rightarrow> number \<Rightarrow> HistogramData option \<Rightarrow> 'tp \<Rightarrow> number option \<Rightarrow> DisplayStrings" where
  "display env random crosshairData timePeriod feeTier =
     (let mockDisplay = \<lparr>volume = ''-'', fees = ''-'', time = ''-''\<rparr>
      in case crosshairData of
           None \<Rightarrow>
             mockDisplay
               \<lparr>volume := header_priceFormatter env (Some (mockCumulativeVolume random)),
                fees := header_priceFormatter env
                  (Some (js_mul (mockCumulativeVolume random)
                     (js_div (js_div (nullish feeTier (js_literal 0)) (BIPS_BASE env))
                        (js_literal 100)))),
                time := t_macro env [''Past '', '''']
                  [toLowerCase (toHistoryDuration env timePeriod)]\<rparr>
         | Some d \<Rightarrow>
             mockDisplay
               \<lparr>volume := header_priceFormatter env (Some (bar_value d)),
                fees := header_priceFormatter env (Some (crosshair_fees env d feeTier)),
                time := useHeaderDateFormatter env (bar_time d)\<rparr>)"

section \<open>The component \<^verbatim>\<open>VolumeChart\<close>\<close>

text \<open>The callback of the \<open>data\<close> memo: \<^verbatim>\<open>volumes?.map(...) ?? []\<close>.\<close>

definition chart_data :: "PricePoint list option \<Rightarrow> HistogramData list" where
  "chart_data volumes =
     nullish
       (map_option
          (map (\<lambda>volumePoint.
             \<lparr>bar_value = point_value volumePoint, bar_time = timestamp volumePoint\<rparr>))
          volumes)
       []"

text \<open>The setter half of \<^verbatim>\<open>useState\<close>: the new state is the value passed.\<close>

definition setCrosshairData ::
  "HistogramData option \<Rightarrow> HistogramData option \<Rightarrow> HistogramData option" where
  "setCrosshairData new_state old_state = new_state"

text \<open>What one render hands to its two children.\<close>

record 'tp VolumeChartRender =
  header_crosshairData :: "HistogramData option"
  header_timePeriod :: 'tp
  header_feeTier :: "number option"
  header_noFeesData :: bool
  chart_params :: "HistogramData list VolumeChartModelParams"
  chart_height :: number

text \<open>
  One render of \<^verbatim>\<open>VolumeChart\<close>, from the state \<open>crosshairData\<close> and the five props
  (\<open>color_prop\<close> is the prop \<^verbatim>\<open>color\<close>).
\<close>

definition VolumeChart ::
  "'tp Env \<Rightarrow> HistogramData option \<Rightarrow> number \<Rightarrow> PricePoint list option \<Rightarrow> number option \<Rightarrow> 'tp
     \<Rightarrow> string option \<Rightarrow> 'tp VolumeChartRender" where
  "VolumeChart env crosshairData height volumes feeTier timePeriod color_prop =
     (let noFeesData = (feeTier = None)
      in \<lparr>header_crosshairData = crosshairData,
          header_timePeriod = timePeriod,
          header_feeTier = feeTier,
          header_noFeesData = noFeesData,
          chart_params =
            \<lparr>data = chart_data volumes,
             locale_code = useActiveLocale env,
             theme = useTheme env,
             color = nullish color_prop (accent1 (useTheme env)),
             format = useFormatter env,
             onCrosshairMove = setCrosshairData,
             headerHeight = (if noFeesData then js_literal 75 else js_literal 90)\<rparr>,
          chart_height = height\<rparr>)"

section \<open>Values for the examples\<close>

text \<open>
  Modelled from the spec: the enumeration \<^verbatim>\<open>TimePeriod\<close> and the function
  \<^verbatim>\<open>toHistoryDuration\<close> of \<^verbatim>\<open>graphql/data/util\<close> are missing; the spec describes an
  enumerated duration selector (day, week, month and the like) whose history-duration
  name the header lowercases. The two definitions below instantiate \<open>'tp\<close> and the field
  \<open>toHistoryDuration\<close> in the examples; no general theorem depends on them.
\<close>

datatype TimePeriod = HOUR | DAY | WEEK | MONTH | YEAR

fun sample_toHistoryDuration :: "TimePeriod \<Rightarrow> string" where
  "sample_toHistoryDuration HOUR = ''HOUR''"
| "sample_toHistoryDuration DAY = ''DAY''"
| "sample_toHistoryDuration WEEK = ''WEEK''"
| "sample_toHistoryDuration MONTH = ''MONTH''"
| "sample_toHistoryDuration YEAR = ''YEAR''"

text \<open>The decimal digits of a non-negative integer.\<close>

function decimal :: "int \<Rightarrow> string" where
  "decimal n =
     (if n < 10 then [''0123456789'' ! nat n]
      else decimal (n div 10) @ [''0123456789'' ! nat (n mod 10)])"
  by pat_completeness auto
termination
  by (relation "measure nat") auto

text \<open>A formatter that prints the whole part of a finite amount after a currency sign.\<close>

definition plain_formatFiatPrice :: "FiatPriceArgs \<Rightarrow> string" where
  "plain_formatFiatPrice args =
     (case price args of
        Some (Finite s q) \<Rightarrow> (if s then ''-$'' else ''$'') @ decimal \<lfloor>q\<rfloor>
      | _ \<Rightarrow> ''-'')"

text \<open>A date formatter that prints the seconds of the timestamp.\<close>

definition plain_dateFormatter :: "number \<Rightarrow> string" where
  "plain_dateFormatter x = (case x of Finite s q \<Rightarrow> decimal \<lfloor>q\<rfloor> | _ \<Rightarrow> ''-'')"

text \<open>
  What a template literal denotes: its literal parts with the interpolated values
  between them.
\<close>

fun template :: "string list \<Rightarrow> string list \<Rightarrow> string" where
  "template [] vs = []"
| "template (s # ss) [] = s @ template ss []"
| "template (s # ss) (v # vs) = s @ v @ template ss vs"

text \<open>
  A \<^verbatim>\<open>t\<close> macro over a catalogue of translations: the catalogue maps the literal parts of
  a source message to those of its translation, and a message without an entry is
  rendered as it is written in the source.
\<close>

definition catalog_t ::
  "(string list \<rightharpoonup> string list) \<Rightarrow> string list \<Rightarrow> string list \<Rightarrow> string" where
  "catalog_t catalog strings vs = template (nullish (catalog strings) strings) vs"

definition light_theme :: Theme where
  "light_theme = \<lparr>surface3 = ''#22222212'', accent1 = ''#FC72FF''\<rparr>"

definition dark_theme :: Theme where
  "dark_theme = \<lparr>surface3 = ''#FFFFFF12'', accent1 = ''#FC72FF''\<rparr>"

text \<open>
  An environment with \<^verbatim>\<open>BIPS_BASE = 10000\<close>, the value the spec presumes, in a locale
  whose catalogue has no translations, and the same environment in a locale whose
  catalogue translates the message of the header.
\<close>

definition sample_env :: "TimePeriod Env" where
  "sample_env =
     \<lparr>useActiveLocale = ''en-US'',
      useTheme = light_theme,
      useFormatter = \<lparr>formatFiatPrice = plain_formatFiatPrice\<rparr>,
      useHeaderDateFormatter = plain_dateFormatter,
      t_macro = catalog_t Map.empty,
      toHistoryDuration = sample_toHistoryDuration,
      BIPS_BASE = js_literal 10000\<rparr>"

definition translated_env :: "TimePeriod Env" where
  "translated_env =
     sample_env
       \<lparr>useActiveLocale := ''es-ES'',
        t_macro := catalog_t (Map.empty([''Past '', ''''] \<mapsto> [''Pasado '', '''']))\<rparr>"

definition sample_datum :: HistogramData where
  "sample_datum = \<lparr>bar_value = js_literal 1000, bar_time = js_literal 1700000000\<rparr>"

definition sample_volumes :: "PricePoint list" where
  "sample_volumes =
     [\<lparr>timestamp = js_literal 1700000000, point_value = js_literal 5\<rparr>,
      \<lparr>timestamp = js_literal 1700003600, point_value = js_literal 7\<rparr>]"

text \<open>A store in which the arrays 1 and 2 are distinct and have the same elements.\<close>

definition sample_store :: store where
  "sample_store r =
     (if r = 1 \<or> r = 2
      then [\<lparr>bar_value = js_literal 5, bar_time = js_literal 1700000000\<rparr>]
      else [])"

definition sample_params :: "ref \<Rightarrow> Theme \<Rightarrow> ref VolumeChartModelParams" where
  "sample_params r th =
     \<lparr>data = r,
      locale_code = ''en-US'',
      theme = th,
      color = accent1 th,
      format = \<lparr>formatFiatPrice = plain_formatFiatPrice\<rparr>,
      onCrosshairMove = setCrosshairData,
      headerHeight = js_literal 90\<rparr>"

definition sample_model :: VolumeChartModel where
  "sample_model =
     \<lparr>this_data = 0,
      series_data = [],
      series_options =
        \<lparr>series_color = ''#26a69a'', priceFormat_type = ''price'',
         priceLineVisible = True, lastValueVisible = True\<rparr>,
      highlightBarPrimitive =
        \<lparr>highlight_color = ''#22222212'', crosshairYPosition = js_literal 90\<rparr>,
      engine_calls = []\<rparr>"

section \<open>Facts about the definitions\<close>

lemma round_half_even_nearest: "\<bar>of_int (round_half_even x) - x\<bar> \<le> 1 / 2"
proof -
  define d where "d = x - of_int \<lfloor>x\<rfloor>"
  have range: "0 \<le> d" "d < 1"
    unfolding d_def by linarith+
  have x: "x = of_int \<lfloor>x\<rfloor> + d"
    by (simp add: d_def)
  consider "d < 1 / 2" | "1 / 2 < d" | "d = 1 / 2"
    by linarith
  then show ?thesis
  proof cases
    case 1
    then have "round_half_even x = \<lfloor>x\<rfloor>"
      by (simp add: round_half_even_def Let_def d_def)
    with 1 range show ?thesis
      by (simp add: d_def)
  next
    case 2
    then have "round_half_even x = \<lfloor>x\<rfloor> + 1"
      by (simp add: round_half_even_def Let_def d_def)
    with 2 range show ?thesis
      by (simp add: d_def)
  next
    case 3
    then have "round_half_even x = \<lfloor>x\<rfloor> \<or> round_half_even x = \<lfloor>x\<rfloor> + 1"
      by (simp add: round_half_even_def Let_def d_def)
    with 3 show ?thesis
      by (auto simp: d_def)
  qed
qed

lemma round_half_even_of_int: "round_half_even (of_int n) = n"
  by (simp add: round_half_even_def)

lemma powi_bitlen:
  assumes "0 < p"
  shows "(2::rat) powi (bitlen p - 1) \<le> of_int p" "of_int p < (2::rat) powi (bitlen p)"
proof -
  from bitlen_bounds [OF assms]
  have lo: "2 ^ nat (bitlen p - 1) \<le> p" and hi: "p < 2 ^ nat (bitlen p)"
    by auto
  have pos: "1 \<le> bitlen p"
    using assms bitlen_eq_zero_iff [of p] bitlen_nonneg [of p] by linarith
  have "(2::rat) powi (bitlen p - 1) = 2 ^ nat (bitlen p - 1)"
    using pos by (simp add: power_int_def)
  also have "\<dots> = of_int (2 ^ nat (bitlen p - 1))"
    by simp
  also have "\<dots> \<le> of_int p"
    using lo by (simp only: of_int_le_iff)
  finally show "(2::rat) powi (bitlen p - 1) \<le> of_int p" .
  have "(of_int p :: rat) < of_int (2 ^ nat (bitlen p))"
    using hi by (simp only: of_int_less_iff)
  also have "\<dots> = 2 ^ nat (bitlen p)"
    by simp
  also have "\<dots> = (2::rat) powi (bitlen p)"
    using pos by (simp add: power_int_def)
  finally show "of_int p < (2::rat) powi (bitlen p)" .
qed

text \<open>\<open>floor_log2\<close> is the binary exponent of a positive rational.\<close>

lemma floor_log2_bounds:
  assumes "0 < q"
  shows "2 powi (floor_log2 q) \<le> q \<and> q < 2 powi (floor_log2 q + 1)"
proof -
  obtain p d where pd: "quotient_of q = (p, d)"
    by force
  have d: "0 < d"
    using quotient_of_denom_pos [OF pd] .
  have q: "q = of_int p / of_int d"
    using quotient_of_div [OF pd] .
  have p: "0 < p"
    using assms d by (simp add: q zero_less_divide_iff)
  define k where "k = bitlen p - bitlen d"
  have dq: "(0::rat) < of_int d"
    using d by simp
  have "q < 2 powi (bitlen p) / 2 powi (bitlen d - 1)"
    unfolding q using powi_bitlen [OF p] powi_bitlen [OF d] p
    by (intro frac_less) auto
  also have "\<dots> = 2 powi (bitlen p - (bitlen d - 1))"
    by (rule power_int_diff [symmetric]) simp
  also have "bitlen p - (bitlen d - 1) = k + 1"
    by (simp add: k_def)
  finally have up: "q < 2 powi (k + 1)" .
  have "2 powi (k - 1) = (2::rat) powi (bitlen p - 1 - bitlen d)"
    by (simp add: k_def algebra_simps)
  also have "\<dots> = 2 powi (bitlen p - 1) / 2 powi (bitlen d)"
    by (rule power_int_diff) simp
  also have "\<dots> \<le> q"
    unfolding q using powi_bitlen [OF p] powi_bitlen [OF d] dq p
    by (intro frac_le) auto
  finally have low: "2 powi (k - 1) \<le> q" .
  show ?thesis
  proof (cases "2 powi k \<le> q")
    case True
    then have "floor_log2 q = k"
      by (simp add: floor_log2_def pd k_def)
    with True up show ?thesis by simp
  next
    case False
    then have "floor_log2 q = k - 1"
      by (simp add: floor_log2_def pd k_def)
    with False low show ?thesis by simp
  qed
qed

text \<open>
  A finite result lies on the grid of the exponent of \<open>q\<close> and is at most half a grid
  step away from \<open>q\<close>.
\<close>

lemma round_binary64_nearest:
  assumes "q \<noteq> 0" and "round_binary64 s q = Finite t r"
  shows "t = s \<and>
    r = of_int (round_half_even (q / 2 powi (max (floor_log2 q) (- 1022) - 52))) *
          2 powi (max (floor_log2 q) (- 1022) - 52) \<and>
    \<bar>r - q\<bar> \<le> 2 powi (max (floor_log2 q) (- 1022) - 52) / 2"
proof -
  define ulp :: rat where "ulp = 2 powi (max (floor_log2 q) (- 1022) - 52)"
  have pos: "0 < ulp"
    by (simp add: ulp_def)
  from assms(1,2) have res: "t = s" "r = of_int (round_half_even (q / ulp)) * ulp"
    by (auto simp: round_binary64_def Let_def ulp_def split: if_splits)
  have "r - q = (of_int (round_half_even (q / ulp)) - q / ulp) * ulp"
    using pos by (simp add: res left_diff_distrib)
  then have "\<bar>r - q\<bar> = \<bar>of_int (round_half_even (q / ulp)) - q / ulp\<bar> * ulp"
    using pos by (simp add: abs_mult)
  also have "\<dots> \<le> 1 / 2 * ulp"
    using pos round_half_even_nearest [of "q / ulp"] by (intro mult_right_mono) auto
  finally show ?thesis
    using res by (simp add: ulp_def)
qed

lemma js_literal_0: "js_literal 0 = Finite False 0"
  by (simp add: js_literal_def round_binary64_def)

lemma js_literal_75: "js_literal 75 = Finite False 75"
  by code_simp

lemma js_literal_90: "js_literal 90 = Finite False 90"
  by code_simp

lemma js_literal_100: "js_literal 100 = Finite False 100"
  by code_simp

lemma fee_example_value:
  "js_mul (js_literal 1000) (js_div (js_div (js_literal 30) (js_literal 10000)) (js_literal 100))
     = Finite False (8646911284551353 / 288230376151711744)"
  by code_simp

lemma js_literal_3_100:
  "js_literal (3 / 100) = Finite False (1080863910568919 / 36028797018963968)"
  by code_simp

lemma zero_multiplier:
  "0 < b \<Longrightarrow> js_div (js_div (js_literal 0) (Finite False b)) (js_literal 100) = Finite False 0"
  by (simp add: js_literal_0 js_literal_100 round_binary64_def)

lemma chart_data_Some:
  "chart_data (Some vs) =
     map (\<lambda>p. \<lparr>bar_value = point_value p, bar_time = timestamp p\<rparr>) vs"
  by (simp add: chart_data_def nullish_def)

lemma display_hover:
  "display env r (Some d) tp ft =
     \<lparr>volume = header_priceFormatter env (Some (bar_value d)),
      fees = header_priceFormatter env (Some (crosshair_fees env d ft)),
      time = useHeaderDateFormatter env (bar_time d)\<rparr>"
  by (simp add: display_def)

lemma display_no_hover:
  "display env r None tp ft =
     \<lparr>volume = header_priceFormatter env (Some (mockCumulativeVolume r)),
      fees = header_priceFormatter env
        (Some (js_mul (mockCumulativeVolume r)
           (js_div (js_div (nullish ft (js_literal 0)) (BIPS_BASE env)) (js_literal 100)))),
      time = t_macro env [''Past '', ''''] [toLowerCase (toHistoryDuration env tp)]\<rparr>"
  by (simp add: display_def)

lemma catalog_t_untranslated:
  "catalog [''Past '', ''''] = None \<Longrightarrow> catalog_t catalog [''Past '', ''''] [p] = ''Past '' @ p"
  by (simp add: catalog_t_def nullish_def)

lemmas updateOptions_unfold =
  updateOptions_def Let_def ChartModel_updateOptions_def fitContent_def
  series_setData_def series_applyOptions_def highlight_applyOptions_def

lemma updateOptions_this_data: "this_data (updateOptions h p m) = data p"
  by (simp add: updateOptions_unfold)

lemma updateOptions_series_data:
  "series_data (updateOptions h p m) =
     (if this_data m \<noteq> data p then h (data p) else series_data m)"
  by (simp add: updateOptions_unfold)

lemma updateOptions_series_options:
  "series_options (updateOptions h p m) =
     \<lparr>series_color = color p, priceFormat_type = ''volume'',
      priceLineVisible = False, lastValueVisible = False\<rparr>"
  by (simp add: updateOptions_unfold)

lemma updateOptions_highlight:
  "highlightBarPrimitive (updateOptions h p m) =
     \<lparr>highlight_color = surface3 (theme p), crosshairYPosition = headerHeight p\<rparr>"
  by (simp add: updateOptions_unfold)

text \<open>The calls of one update, in order; the two in the middle only for a new array.\<close>

lemma updateOptions_calls:
  "engine_calls (updateOptions h p m) =
     engine_calls m @
     Api_applyOptions (volumeChartOptions p) #
     (if this_data m \<noteq> data p then [Series_setData (h (data p)), TimeScale_fitContent]
      else []) @
     [Series_applyOptions
        \<lparr>series_color = color p, priceFormat_type = ''volume'',
         priceLineVisible = False, lastValueVisible = False\<rparr>,
      Highlight_applyOptions
        \<lparr>highlight_color = surface3 (theme p), crosshairYPosition = headerHeight p\<rparr>]"
  by (simp add: updateOptions_unfold)

lemma calls_between_updateOptions:
  "calls_between m (updateOptions h p m) =
     Api_applyOptions (volumeChartOptions p) #
     (if this_data m \<noteq> data p then [Series_setData (h (data p)), TimeScale_fitContent]
      else []) @
     [Series_applyOptions
        \<lparr>series_color = color p, priceFormat_type = ''volume'',
         priceLineVisible = False, lastValueVisible = False\<rparr>,
      Highlight_applyOptions
        \<lparr>highlight_color = surface3 (theme p), crosshairYPosition = headerHeight p\<rparr>]"
  by (simp add: calls_between_def updateOptions_calls)

section \<open>The derived chart data\<close>

text \<open>
  C1. For every sequence \<open>volumes\<close> of price points, the non-empty ones among them, the
  chart data passed to the chart adapter has the length of the input, and its i-th datum
  has the value of the i-th price point as \<open>value\<close> and its timestamp as \<open>time\<close>: the
  order is kept.
\<close>

theorem chart_data_pointwise:
  "length (data (chart_params (VolumeChart env cd ht (Some vs) ft tp c))) = length vs \<and>
   (\<forall>i < length vs.
      bar_value (data (chart_params (VolumeChart env cd ht (Some vs) ft tp c)) ! i)
        = point_value (vs ! i) \<and>
      bar_time (data (chart_params (VolumeChart env cd ht (Some vs) ft tp c)) ! i)
        = timestamp (vs ! i))"
  by (simp add: VolumeChart_def chart_data_Some Let_def)

theorem chart_data_pointwise_witness:
  "length (data (chart_params
       (VolumeChart sample_env None (js_literal 300) (Some sample_volumes)
          None DAY None))) = 2 \<and>
   bar_value (data (chart_params
       (VolumeChart sample_env None (js_literal 300) (Some sample_volumes)
          None DAY None)) ! 1) = js_literal 7 \<and>
   bar_time (data (chart_params
       (VolumeChart sample_env None (js_literal 300) (Some sample_volumes)
          None DAY None)) ! 1) = js_literal 1700003600"
  using chart_data_pointwise
    [of sample_env None "js_literal 300" sample_volumes None DAY None]
  by (simp add: sample_volumes_def)

text \<open>
  C9. When the prop \<open>volumes\<close> is absent, the derived chart data is the empty list: the
  chart adapter receives a list in every case.
\<close>

theorem absent_volumes_empty_data:
  "data (chart_params (VolumeChart env cd ht None ft tp c)) = []"
  by (simp add: VolumeChart_def chart_data_def nullish_def Let_def)

section \<open>The flag \<open>noFeesData\<close> and the header height\<close>

text \<open>
  C3. For all props, \<open>noFeesData\<close> is true exactly when \<open>feeTier\<close> is absent, and the
  \<open>headerHeight\<close> passed to the chart adapter is 75 when the flag is true and 90 when it
  is false.
\<close>

theorem noFeesData_headerHeight:
  "header_noFeesData (VolumeChart env cd ht vols ft tp c) = (ft = None) \<and>
   (header_noFeesData (VolumeChart env cd ht vols ft tp c) \<longrightarrow>
      headerHeight (chart_params (VolumeChart env cd ht vols ft tp c)) = Finite False 75) \<and>
   (\<not> header_noFeesData (VolumeChart env cd ht vols ft tp c) \<longrightarrow>
      headerHeight (chart_params (VolumeChart env cd ht vols ft tp c)) = Finite False 90)"
  by (simp add: VolumeChart_def Let_def js_literal_75 js_literal_90)

theorem noFeesData_headerHeight_witness:
  "header_noFeesData
     (VolumeChart sample_env None (js_literal 300) None None DAY None) \<and>
   headerHeight (chart_params
     (VolumeChart sample_env None (js_literal 300) None None DAY None))
     = Finite False 75 \<and>
   \<not> header_noFeesData
     (VolumeChart sample_env None (js_literal 300) None (Some (js_literal 30))
        DAY None) \<and>
   headerHeight (chart_params
     (VolumeChart sample_env None (js_literal 300) None (Some (js_literal 30))
        DAY None))
     = Finite False 90"
  using noFeesData_headerHeight
    [of sample_env None "js_literal 300" None None DAY None]
    noFeesData_headerHeight
    [of sample_env None "js_literal 300" None "Some (js_literal 30)" DAY None]
  by simp

section \<open>The update path of the chart model\<close>

text \<open>
  C4. Take two consecutive invocations of \<open>updateOptions\<close>. If the second one passes the
  array the model has stored (the same reference), it calls neither \<open>setData\<close> on the
  series nor the fit of the visible range; if it passes another reference, whatever the
  elements of that array, it calls both, once each, \<open>setData\<close> with the new array.
\<close>

theorem updateOptions_twice:
  "this_data (updateOptions h p m) = data p \<and>
   (data p' = data p \<longrightarrow>
      filter is_setData
        (calls_between (updateOptions h p m) (updateOptions h p' (updateOptions h p m)))
        = [] \<and>
      filter is_fitContent
        (calls_between (updateOptions h p m) (updateOptions h p' (updateOptions h p m)))
        = []) \<and>
   (data p' \<noteq> data p \<longrightarrow>
      filter is_setData
        (calls_between (updateOptions h p m) (updateOptions h p' (updateOptions h p m)))
        = [Series_setData (h (data p'))] \<and>
      filter is_fitContent
        (calls_between (updateOptions h p m) (updateOptions h p' (updateOptions h p m)))
        = [TimeScale_fitContent])"
proof -
  define m1 where "m1 = updateOptions h p m"
  have stored: "this_data m1 = data p"
    by (simp add: m1_def updateOptions_this_data)
  show ?thesis
  proof (cases "data p' = data p")
    case True
    with stored have "this_data m1 = data p'"
      by simp
    then have "calls_between m1 (updateOptions h p' m1) =
        [Api_applyOptions (volumeChartOptions p'),
         Series_applyOptions
           \<lparr>series_color = color p', priceFormat_type = ''volume'',
            priceLineVisible = False, lastValueVisible = False\<rparr>,
         Highlight_applyOptions
           \<lparr>highlight_color = surface3 (theme p'), crosshairYPosition = headerHeight p'\<rparr>]"
      by (simp add: calls_between_updateOptions)
    with True stored show ?thesis
      by (simp add: m1_def [symmetric])
  next
    case False
    with stored have "this_data m1 \<noteq> data p'"
      by simp
    then have "calls_between m1 (updateOptions h p' m1) =
        [Api_applyOptions (volumeChartOptions p'),
         Series_setData (h (data p')),
         TimeScale_fitContent,
         Series_applyOptions
           \<lparr>series_color = color p', priceFormat_type = ''volume'',
            priceLineVisible = False, lastValueVisible = False\<rparr>,
         Highlight_applyOptions
           \<lparr>highlight_color = surface3 (theme p'), crosshairYPosition = headerHeight p'\<rparr>]"
      by (simp add: calls_between_updateOptions)
    with False stored show ?thesis
      by (simp add: m1_def [symmetric])
  qed
qed

theorem updateOptions_twice_witness:
  "data (sample_params 2 light_theme) \<noteq> data (sample_params 1 light_theme) \<and>
   sample_store 2 = sample_store 1 \<and>
   filter is_setData
     (calls_between (updateOptions sample_store (sample_params 1 light_theme) sample_model)
        (updateOptions sample_store (sample_params 2 light_theme)
           (updateOptions sample_store (sample_params 1 light_theme) sample_model)))
     = [Series_setData (sample_store 2)] \<and>
   filter is_fitContent
     (calls_between (updateOptions sample_store (sample_params 1 light_theme) sample_model)
        (updateOptions sample_store (sample_params 2 light_theme)
           (updateOptions sample_store (sample_params 1 light_theme) sample_model)))
     = [TimeScale_fitContent] \<and>
   filter is_setData
     (calls_between (updateOptions sample_store (sample_params 1 light_theme) sample_model)
        (updateOptions sample_store (sample_params 1 dark_theme)
           (updateOptions sample_store (sample_params 1 light_theme) sample_model)))
     = [] \<and>
   filter is_fitContent
     (calls_between (updateOptions sample_store (sample_params 1 light_theme) sample_model)
        (updateOptions sample_store (sample_params 1 dark_theme)
           (updateOptions sample_store (sample_params 1 light_theme) sample_model)))
     = []"
  using updateOptions_twice [where p' = "sample_params 2 light_theme"
      and p = "sample_params 1 light_theme" and h = sample_store and m = sample_model]
    updateOptions_twice [where p' = "sample_params 1 dark_theme"
      and p = "sample_params 1 light_theme" and h = sample_store and m = sample_model]
  by (simp add: sample_params_def sample_store_def)

text \<open>
  C5. An invocation of \<open>updateOptions\<close> that passes the stored array, with whatever theme
  and colour, applies the colour parameter to the series and the theme's \<open>surface3\<close> to
  the highlight overlay, and leaves the data set as it was, in the model and in the
  series: \<open>setData\<close> is not called.
\<close>

theorem retheme_keeps_data:
  "data p = this_data m \<Longrightarrow>
     this_data (updateOptions h p m) = this_data m \<and>
     series_data (updateOptions h p m) = series_data m \<and>
     filter is_setData (calls_between m (updateOptions h p m)) = [] \<and>
     series_color (series_options (updateOptions h p m)) = color p \<and>
     highlight_color (highlightBarPrimitive (updateOptions h p m)) = surface3 (theme p) \<and>
     filter (\<lambda>c. \<not> is_setData c \<and> \<not> is_fitContent c) (calls_between m (updateOptions h p m)) =
       [Api_applyOptions (volumeChartOptions p),
        Series_applyOptions
          \<lparr>series_color = color p, priceFormat_type = ''volume'',
           priceLineVisible = False, lastValueVisible = False\<rparr>,
        Highlight_applyOptions
          \<lparr>highlight_color = surface3 (theme p), crosshairYPosition = headerHeight p\<rparr>]"
  by (simp add: calls_between_updateOptions updateOptions_this_data updateOptions_series_data
      updateOptions_series_options updateOptions_highlight)

theorem retheme_keeps_data_witness:
  "data (sample_params 1 dark_theme)
     = this_data (updateOptions sample_store (sample_params 1 light_theme) sample_model) \<and>
   series_data (updateOptions sample_store (sample_params 1 dark_theme)
       (updateOptions sample_store (sample_params 1 light_theme) sample_model))
     = sample_store 1 \<and>
   highlight_color (highlightBarPrimitive
       (updateOptions sample_store (sample_params 1 light_theme) sample_model))
     = ''#22222212'' \<and>
   highlight_color (highlightBarPrimitive
       (updateOptions sample_store (sample_params 1 dark_theme)
          (updateOptions sample_store (sample_params 1 light_theme) sample_model)))
     = ''#FFFFFF12''"
proof -
  have same: "data (sample_params 1 dark_theme)
      = this_data (updateOptions sample_store (sample_params 1 light_theme) sample_model)"
    by (simp add: updateOptions_this_data sample_params_def)
  have first: "series_data (updateOptions sample_store (sample_params 1 light_theme) sample_model)
      = sample_store 1"
    by (simp add: updateOptions_series_data sample_params_def sample_model_def)
  have light: "highlight_color (highlightBarPrimitive
       (updateOptions sample_store (sample_params 1 light_theme) sample_model)) = ''#22222212''"
    by (simp add: updateOptions_highlight sample_params_def light_theme_def)
  from retheme_keeps_data [OF same, of sample_store] same first light show ?thesis
    by (simp add: sample_params_def dark_theme_def)
qed

section \<open>The strings of the header\<close>

text \<open>
  C2. For a hovered crosshair datum and a fee tier, the string \<open>fees\<close> is the formatter's
  rendering of hoveredValue \<open>*\<close> (feeTier \<open>/\<close> BIPS_BASE \<open>/\<close> 100), each operation being
  that of binary64 numbers. For the value 1000, the fee tier 30 and \<open>BIPS_BASE = 10000\<close>
  the amount passed to the formatter is \<open>8646911284551353 / 2 ^ 58\<close>, which is
  0.030000000000000002: the number next above the one the literal 0.03 denotes.
\<close>

theorem hovered_fees_amount:
  "fees (display env r (Some d) tp (Some ft)) =
     formatFiatPrice (useFormatter env)
       \<lparr>price = Some (crosshair_fees env d (Some ft)),
        number_type = FiatTokenStatChartHeader\<rparr> \<and>
   crosshair_fees env d (Some ft) =
     js_mul (bar_value d) (js_div (js_div ft (BIPS_BASE env)) (js_literal 100)) \<and>
   crosshair_fees (env\<lparr>BIPS_BASE := js_literal 10000\<rparr>) (d\<lparr>bar_value := js_literal 1000\<rparr>)
       (Some (js_literal 30))
     = Finite False (8646911284551353 / 2 ^ 58) \<and>
   js_literal (3 / 100) = Finite False (8646911284551352 / 2 ^ 58)"
proof -
  have example: "crosshair_fees (env\<lparr>BIPS_BASE := js_literal 10000\<rparr>)
      (d\<lparr>bar_value := js_literal 1000\<rparr>) (Some (js_literal 30))
      = Finite False (8646911284551353 / 2 ^ 58)"
    by (simp add: crosshair_fees_def nullish_def fee_example_value)
  have literal: "js_literal (3 / 100) = Finite False (8646911284551352 / 2 ^ 58)"
    by (simp add: js_literal_3_100)
  show ?thesis
    by (simp add: display_hover header_priceFormatter_def example literal)
      (simp add: crosshair_fees_def nullish_def)
qed

text \<open>The amount of the example is not the number 0.03.\<close>

theorem fee_example_counterexample:
  "crosshair_fees sample_env sample_datum (Some (js_literal 30))
     \<noteq> js_literal (3 / 100)"
  by code_simp

text \<open>
  C6. With a crosshair datum, the three strings are a function of the datum, the fee
  tier and the formatting context alone (the price formatter, the header date formatter
  and \<open>BIPS_BASE\<close>): neither the value drawn from \<open>Math.random\<close>, nor the time period,
  nor the rest of the environment has a part in them. Without one, the string \<open>time\<close> is
  a function of the time period and the translation context alone (the \<open>t\<close> macro and
  \<open>toHistoryDuration\<close>); the string \<open>volume\<close> is a function of the value drawn and the
  price formatter alone, and the string \<open>fees\<close> of the value drawn, the fee tier, the
  price formatter and \<open>BIPS_BASE\<close> alone.
\<close>

theorem display_determined:
  "(useFormatter env = useFormatter env' \<and>
    useHeaderDateFormatter env = useHeaderDateFormatter env' \<and>
    BIPS_BASE env = BIPS_BASE env' \<longrightarrow>
      display env r (Some d) tp ft = display env' r' (Some d) tp' ft) \<and>
   (t_macro env = t_macro env' \<and> toHistoryDuration env = toHistoryDuration env' \<longrightarrow>
      time (display env r None tp ft) = time (display env' r' None tp ft')) \<and>
   (useFormatter env = useFormatter env' \<longrightarrow>
      volume (display env r None tp ft) = volume (display env' r None tp' ft')) \<and>
   (useFormatter env = useFormatter env' \<and> BIPS_BASE env = BIPS_BASE env' \<longrightarrow>
      fees (display env r None tp ft) = fees (display env' r None tp' ft))"
proof -
  have hover: "display env r (Some d) tp ft = display env' r' (Some d) tp' ft"
    if "useFormatter env = useFormatter env'"
      and "useHeaderDateFormatter env = useHeaderDateFormatter env'"
      and "BIPS_BASE env = BIPS_BASE env'"
    using that by (simp add: display_hover header_priceFormatter_def crosshair_fees_def)
  have label: "time (display env r None tp ft) = time (display env' r' None tp ft')"
    if "t_macro env = t_macro env'" and "toHistoryDuration env = toHistoryDuration env'"
    using that by (simp add: display_no_hover)
  have amount: "volume (display env r None tp ft) = volume (display env' r None tp' ft')"
    if "useFormatter env = useFormatter env'"
    using that by (simp add: display_no_hover header_priceFormatter_def)
  have share: "fees (display env r None tp ft) = fees (display env' r None tp' ft)"
    if "useFormatter env = useFormatter env'" and "BIPS_BASE env = BIPS_BASE env'"
    using that by (simp add: display_no_hover header_priceFormatter_def)
  from hover label amount share show ?thesis
    by blast
qed

theorem display_determined_witness:
  "useFormatter sample_env = useFormatter translated_env \<and>
   useHeaderDateFormatter sample_env = useHeaderDateFormatter translated_env \<and>
   BIPS_BASE sample_env = BIPS_BASE translated_env \<and>
   display sample_env (js_literal (1 / 4)) (Some sample_datum) DAY (Some (js_literal 30))
     = display translated_env (js_literal (1 / 2)) (Some sample_datum) WEEK
         (Some (js_literal 30)) \<and>
   t_macro sample_env = t_macro (sample_env\<lparr>BIPS_BASE := js_literal 1\<rparr>) \<and>
   toHistoryDuration sample_env
     = toHistoryDuration (sample_env\<lparr>BIPS_BASE := js_literal 1\<rparr>) \<and>
   time (display sample_env (js_literal (1 / 4)) None DAY None)
     = time (display (sample_env\<lparr>BIPS_BASE := js_literal 1\<rparr>) (js_literal (1 / 2)) None DAY
         (Some (js_literal 30))) \<and>
   volume (display sample_env (js_literal (1 / 4)) None DAY None)
     = volume (display translated_env (js_literal (1 / 4)) None WEEK (Some (js_literal 30))) \<and>
   fees (display sample_env (js_literal (1 / 4)) None DAY (Some (js_literal 30)))
     = fees (display translated_env (js_literal (1 / 4)) None WEEK (Some (js_literal 30)))"
proof -
  have same: "useFormatter sample_env = useFormatter translated_env"
    "useHeaderDateFormatter sample_env = useHeaderDateFormatter translated_env"
    "BIPS_BASE sample_env = BIPS_BASE translated_env"
    by (simp_all add: translated_env_def)
  have rescaled: "t_macro sample_env = t_macro (sample_env\<lparr>BIPS_BASE := js_literal 1\<rparr>)"
    "toHistoryDuration sample_env = toHistoryDuration (sample_env\<lparr>BIPS_BASE := js_literal 1\<rparr>)"
    by simp_all
  note hover = display_determined [where env = sample_env and env' = translated_env
      and r = "js_literal (1 / 4)" and r' = "js_literal (1 / 2)" and d = sample_datum
      and tp = DAY and tp' = WEEK and ft = "Some (js_literal 30)"]
  note label = display_determined [where env = sample_env
      and env' = "sample_env\<lparr>BIPS_BASE := js_literal 1\<rparr>"
      and r = "js_literal (1 / 4)" and r' = "js_literal (1 / 2)"
      and tp = DAY and ft = None and ft' = "Some (js_literal 30)"]
  note amount = display_determined [where env = sample_env and env' = translated_env
      and r = "js_literal (1 / 4)" and tp = DAY and tp' = WEEK
      and ft = None and ft' = "Some (js_literal 30)"]
  from same hover have a: "display sample_env (js_literal (1 / 4)) (Some sample_datum) DAY
      (Some (js_literal 30))
      = display translated_env (js_literal (1 / 2)) (Some sample_datum) WEEK
          (Some (js_literal 30))"
    by blast
  from rescaled label have b: "time (display sample_env (js_literal (1 / 4)) None DAY None)
      = time (display (sample_env\<lparr>BIPS_BASE := js_literal 1\<rparr>) (js_literal (1 / 2)) None DAY
          (Some (js_literal 30)))"
    by blast
  from same amount have c: "volume (display sample_env (js_literal (1 / 4)) None DAY None)
      = volume (display translated_env (js_literal (1 / 4)) None WEEK (Some (js_literal 30)))"
    by blast
  from same hover have d: "fees (display sample_env (js_literal (1 / 4)) None DAY
      (Some (js_literal 30)))
      = fees (display translated_env (js_literal (1 / 4)) None WEEK (Some (js_literal 30)))"
    by blast
  from same rescaled a b c d show ?thesis
    by blast
qed

text \<open>Two computations on the same inputs, the draws being 0.25 and 0.5.\<close>

theorem display_random_counterexample:
  "volume (display sample_env (js_literal (1 / 4)) None DAY None) \<noteq>
   volume (display sample_env (js_literal (1 / 2)) None DAY None)"
  by code_simp

text \<open>
  C7. When \<open>feeTier\<close> is absent, the factor of the fees is (0 \<open>/\<close> BIPS_BASE \<open>/\<close> 100), in
  the branch without a crosshair datum and in the branch with one; for a positive finite
  \<open>BIPS_BASE\<close> that factor is 0.
\<close>

theorem absent_feeTier_multiplier:
  "fees (display env r None tp None) =
     header_priceFormatter env
       (Some (js_mul (mockCumulativeVolume r)
          (js_div (js_div (js_literal 0) (BIPS_BASE env)) (js_literal 100)))) \<and>
   fees (display env r (Some d) tp None) =
     header_priceFormatter env
       (Some (js_mul (bar_value d)
          (js_div (js_div (js_literal 0) (BIPS_BASE env)) (js_literal 100)))) \<and>
   (BIPS_BASE env = Finite False b \<and> 0 < b \<longrightarrow>
      js_div (js_div (js_literal 0) (BIPS_BASE env)) (js_literal 100) = Finite False 0)"
  by (simp add: display_hover display_no_hover crosshair_fees_def nullish_def zero_multiplier)

theorem absent_feeTier_multiplier_witness:
  "BIPS_BASE sample_env = Finite False 10000 \<and>
   js_div (js_div (js_literal 0) (BIPS_BASE sample_env)) (js_literal 100)
     = Finite False 0 \<and>
   fees (display sample_env (js_literal (1 / 2)) (Some sample_datum) DAY None)
     = ''$0''"
proof -
  have bips: "BIPS_BASE sample_env = Finite False 10000"
    by code_simp
  have zero: "js_mul (bar_value sample_datum) (Finite False 0) = Finite False 0"
    by code_simp
  have shown: "header_priceFormatter sample_env (Some (Finite False 0)) = ''$0''"
    by code_simp
  have "js_div (js_div (js_literal 0) (BIPS_BASE sample_env)) (js_literal 100)
      = Finite False 0"
    using absent_feeTier_multiplier
      [of sample_env "js_literal (1 / 2)" DAY sample_datum 10000] bips
    by simp
  with absent_feeTier_multiplier
      [of sample_env "js_literal (1 / 2)" DAY sample_datum 10000] bips zero shown
  show ?thesis by simp
qed

text \<open>
  C8. Without a crosshair datum, the string \<open>time\<close> is what the \<open>t\<close> macro of the active
  locale makes of the message \<open>Past p\<close>, where \<open>p\<close> is the lowercased history-duration
  name of the active time period; where the catalogue has no translation of the message
  it is the string \<open>Past p\<close> itself.
\<close>

theorem time_label_translated:
  "time (display env r None tp ft) =
     t_macro env [''Past '', ''''] [toLowerCase (toHistoryDuration env tp)] \<and>
   (t_macro env = catalog_t catalog \<and> catalog [''Past '', ''''] = None \<longrightarrow>
      time (display env r None tp ft) = ''Past '' @ toLowerCase (toHistoryDuration env tp))"
  by (simp add: display_no_hover catalog_t_untranslated)

theorem time_label_translated_witness:
  "t_macro sample_env = catalog_t Map.empty \<and>
   time (display sample_env (js_literal (1 / 2)) None WEEK None) = ''Past week''"
proof -
  have t: "t_macro sample_env = catalog_t Map.empty"
    by (simp add: sample_env_def)
  have p: "toLowerCase (toHistoryDuration sample_env WEEK) = ''week''"
    by code_simp
  have "t_macro sample_env = catalog_t Map.empty \<and>
        Map.empty [''Past '', ''''] = (None :: string list option) \<longrightarrow>
      time (display sample_env (js_literal (1 / 2)) None WEEK None) =
        ''Past '' @ toLowerCase (toHistoryDuration sample_env WEEK)"
    using time_label_translated
      [of sample_env "js_literal (1 / 2)" WEEK None Map.empty]
    by (rule conjunct2)
  with t p show ?thesis by simp
qed

text \<open>A locale whose catalogue translates the message.\<close>

theorem time_label_counterexample:
  "time (display translated_env (js_literal (1 / 2)) None DAY None) \<noteq> ''Past day''"
  by code_simp

text \<open>
  C10. In one computation without a crosshair datum, the string \<open>volume\<close> renders the mock
  volume drawn in that computation, and the string \<open>fees\<close> renders that same mock volume
  times ((feeTier ?? 0) \<open>/\<close> BIPS_BASE \<open>/\<close> 100).
\<close>

theorem mock_volume_and_fees_consistent:
  "volume (display env r None tp ft) =
     header_priceFormatter env (Some (mockCumulativeVolume r)) \<and>
   fees (display env r None tp ft) =
     header_priceFormatter env
       (Some (js_mul (mockCumulativeVolume r)
          (js_div (js_div (nullish ft (js_literal 0)) (BIPS_BASE env)) (js_literal 100)))) \<and>
   mockCumulativeVolume r = js_mul r (js_literal 10000000000)"
  by (simp add: display_no_hover mockCumulativeVolume_def)

end
